theory Spec2Isabelle
  imports Main "HOL-Library.Word"
begin

section \<open>The chat Lambda of cdk-bedrock-http-api\<close>

text \<open>
  The repository has one function with logic in it: \<^verbatim>\<open>handler\<close> in
  \<^verbatim>\<open>src/lambdas/chat.ts\<close>. It reads two environment variables, takes a prompt out
  of the body of an API Gateway event, builds the Claude 3 request, calls Bedrock, joins
  the text blocks of the answer and returns an HTTP response: 200 on success, 500 when
  anything inside the second \<^verbatim>\<open>try\<close> throws. The constructor of the client, which
  is outside both \<^verbatim>\<open>try\<close> blocks, and the \<^verbatim>\<open>catch\<close> block itself are not
  guarded: what they throw, the handler throws.

  The handler is embedded as a pure function whose result is the response or the value
  thrown. What it takes from the JavaScript runtime (\<^verbatim>\<open>JSON.parse\<close>,
  \<^verbatim>\<open>JSON.stringify\<close>, property access, \<^verbatim>\<open>typeof\<close>, \<^verbatim>\<open>Array.prototype.join\<close>)
  is modelled first, following ECMA-262; the Bedrock SDK is a parameter.
\<close>

subsection \<open>JavaScript strings and values\<close>

text \<open>
  A JavaScript string is a sequence of 16-bit code units. \<open>str\<close> turns an Isabelle
  literal into one, character by character.
\<close>

type_synonym code_unit = "16 word"
type_synonym js_string = "code_unit list"

definition str :: "string \<Rightarrow> js_string" where
  "str s = map of_char s"

text \<open>
  The values the handler meets: \<^verbatim>\<open>undefined\<close> and what \<^verbatim>\<open>JSON.parse\<close> can return.
  An object is the list of its own properties in insertion order; a key written twice
  is kept twice and the last one is the one read, as \<^verbatim>\<open>JSON.parse\<close> has it.
  A number is carried as decimal text. The handler never computes with a number: it
  asks for \<^verbatim>\<open>typeof\<close>, and it writes the two literals \<^verbatim>\<open>200\<close> and \<^verbatim>\<open>0.7\<close>.
\<close>

datatype jsval =
    JUndefined
  | JNull
  | JBool bool
  | JNum js_string
  | JStr js_string
  | JArr "jsval list"
  | JObj "(js_string \<times> jsval) list"

subsection \<open>\<^verbatim>\<open>JSON.parse\<close>: the lexer\<close>

datatype token =
    TLBrace | TRBrace | TLBrack | TRBrack | TColon | TComma
  | TStr js_string | TNum js_string | TTrue | TFalse | TNull

text \<open>The states of the number grammar
  \<^verbatim>\<open>-? (0 | [1-9][0-9]*) (. [0-9]+)? ([eE] [+-]? [0-9]+)?\<close>.\<close>

datatype num_state =
  NMinus | NZero | NInt | NDot | NFrac | NExp | NExpSign | NExpDigits

definition is_digit :: "code_unit \<Rightarrow> bool" where
  "is_digit c \<longleftrightarrow> 0x30 \<le> c \<and> c \<le> 0x39"

definition is_exp :: "code_unit \<Rightarrow> bool" where
  "is_exp c \<longleftrightarrow> c = 0x65 \<or> c = 0x45"

fun num_step :: "num_state \<Rightarrow> code_unit \<Rightarrow> num_state option" where
  "num_step NMinus c =
     (if c = 0x30 then Some NZero else if is_digit c then Some NInt else None)"
| "num_step NZero c =
     (if c = 0x2E then Some NDot else if is_exp c then Some NExp else None)"
| "num_step NInt c =
     (if is_digit c then Some NInt else if c = 0x2E then Some NDot
      else if is_exp c then Some NExp else None)"
| "num_step NDot c = (if is_digit c then Some NFrac else None)"
| "num_step NFrac c =
     (if is_digit c then Some NFrac else if is_exp c then Some NExp else None)"
| "num_step NExp c =
     (if c = 0x2B \<or> c = 0x2D then Some NExpSign
      else if is_digit c then Some NExpDigits else None)"
| "num_step NExpSign c = (if is_digit c then Some NExpDigits else None)"
| "num_step NExpDigits c = (if is_digit c then Some NExpDigits else None)"

fun num_final :: "num_state \<Rightarrow> bool" where
  "num_final NZero = True"
| "num_final NInt = True"
| "num_final NFrac = True"
| "num_final NExpDigits = True"
| "num_final _ = False"

text \<open>The value of a hexadecimal digit, either case, and of a row of digits.\<close>

definition hex_val :: "code_unit \<Rightarrow> nat option" where
  "hex_val c =
     (if 0x30 \<le> c \<and> c \<le> 0x39 then Some (unat c - 48)
      else if 0x61 \<le> c \<and> c \<le> 0x66 then Some (unat c - 87)
      else if 0x41 \<le> c \<and> c \<le> 0x46 then Some (unat c - 55)
      else None)"

definition hex_value :: "nat list \<Rightarrow> nat" where
  "hex_value hs = foldl (\<lambda>a h. 16 * a + h) 0 hs"

text \<open>The single-character escapes: what follows the backslash, and what it stands for.\<close>

definition unescape :: "code_unit \<Rightarrow> code_unit option" where
  "unescape c =
     (if c = 0x22 then Some 0x22
      else if c = 0x5C then Some 0x5C
      else if c = 0x2F then Some 0x2F
      else if c = 0x62 then Some 0x08
      else if c = 0x66 then Some 0x0C
      else if c = 0x6E then Some 0x0A
      else if c = 0x72 then Some 0x0D
      else if c = 0x74 then Some 0x09
      else None)"

datatype lex_mode =
    LIdle
  | LStr js_string
  | LEsc js_string
  | LHex js_string "nat list"
  | LNum num_state js_string
  | LLit js_string token

text \<open>
  What a character does between tokens: white space is skipped, punctuation is a
  token, and a quote, a digit, a minus sign or the first letter of a literal opens a
  longer token.
\<close>

definition idle :: "code_unit \<Rightarrow> (token list \<times> lex_mode) option" where
  "idle c =
     (if c = 0x20 \<or> c = 0x09 \<or> c = 0x0A \<or> c = 0x0D then Some ([], LIdle)
      else if c = 0x7B then Some ([TLBrace], LIdle)
      else if c = 0x7D then Some ([TRBrace], LIdle)
      else if c = 0x5B then Some ([TLBrack], LIdle)
      else if c = 0x5D then Some ([TRBrack], LIdle)
      else if c = 0x3A then Some ([TColon], LIdle)
      else if c = 0x2C then Some ([TComma], LIdle)
      else if c = 0x22 then Some ([], LStr [])
      else if c = 0x2D then Some ([], LNum NMinus [c])
      else if c = 0x30 then Some ([], LNum NZero [c])
      else if is_digit c then Some ([], LNum NInt [c])
      else if c = 0x74 then Some ([], LLit (str ''rue'') TTrue)
      else if c = 0x66 then Some ([], LLit (str ''alse'') TFalse)
      else if c = 0x6E then Some ([], LLit (str ''ull'') TNull)
      else None)"

fun lex_go :: "lex_mode \<Rightarrow> js_string \<Rightarrow> token list option" where
  "lex_go LIdle [] = Some []"
| "lex_go (LNum st acc) [] = (if num_final st then Some [TNum acc] else None)"
| "lex_go (LStr acc) [] = None"
| "lex_go (LEsc acc) [] = None"
| "lex_go (LHex acc hs) [] = None"
| "lex_go (LLit rest t) [] = None"
| "lex_go LIdle (c # cs) =
     (case idle c of
        None \<Rightarrow> None
      | Some (ts, m) \<Rightarrow> map_option ((@) ts) (lex_go m cs))"
| "lex_go (LStr acc) (c # cs) =
     (if c = 0x22 then map_option ((#) (TStr acc)) (lex_go LIdle cs)
      else if c = 0x5C then lex_go (LEsc acc) cs
      else if c < 0x20 then None
      else lex_go (LStr (acc @ [c])) cs)"
| "lex_go (LEsc acc) (c # cs) =
     (case unescape c of
        Some u \<Rightarrow> lex_go (LStr (acc @ [u])) cs
      | None \<Rightarrow> if c = 0x75 then lex_go (LHex acc []) cs else None)"
| "lex_go (LHex acc hs) (c # cs) =
     (case hex_val c of
        None \<Rightarrow> None
      | Some h \<Rightarrow>
          if length hs = 3 then lex_go (LStr (acc @ [of_nat (hex_value (hs @ [h]))])) cs
          else lex_go (LHex acc (hs @ [h])) cs)"
| "lex_go (LNum st acc) (c # cs) =
     (case num_step st c of
        Some st' \<Rightarrow> lex_go (LNum st' (acc @ [c])) cs
      | None \<Rightarrow>
          if num_final st then
            (case idle c of
               None \<Rightarrow> None
             | Some (ts, m) \<Rightarrow> map_option ((@) (TNum acc # ts)) (lex_go m cs))
          else None)"
| "lex_go (LLit rest t) (c # cs) =
     (case rest of
        [] \<Rightarrow> None
      | r # rs \<Rightarrow>
          if c \<noteq> r then None
          else if rs = [] then map_option ((#) t) (lex_go LIdle cs)
          else lex_go (LLit rs t) cs)"

subsection \<open>\<^verbatim>\<open>JSON.parse\<close>: the parser\<close>

text \<open>
  The parser reads the tokens from left to right with a stack of the arrays and objects
  that are still open. \<open>KeyF k\<close> lies on top of its object while the value of \<open>k\<close>
  is read.
\<close>

datatype frame =
    ArrF "jsval list"
  | ObjF "(js_string \<times> jsval) list"
  | KeyF js_string

datatype expect =
    EValue | EFirst | EKeyOrEnd | EKey | EColon | EAfter | EDone jsval

fun reduce :: "jsval \<Rightarrow> frame list \<Rightarrow> (expect \<times> frame list) option" where
  "reduce v [] = Some (EDone v, [])"
| "reduce v (ArrF vs # st) = Some (EAfter, ArrF (vs @ [v]) # st)"
| "reduce v (KeyF k # ObjF kvs # st) = Some (EAfter, ObjF (kvs @ [(k, v)]) # st)"
| "reduce v _ = None"

fun start_value :: "frame list \<Rightarrow> token \<Rightarrow> (expect \<times> frame list) option" where
  "start_value st TLBrack = Some (EFirst, ArrF [] # st)"
| "start_value st TLBrace = Some (EKeyOrEnd, ObjF [] # st)"
| "start_value st (TStr s) = reduce (JStr s) st"
| "start_value st (TNum n) = reduce (JNum n) st"
| "start_value st TTrue = reduce (JBool True) st"
| "start_value st TFalse = reduce (JBool False) st"
| "start_value st TNull = reduce JNull st"
| "start_value st _ = None"

fun close_array :: "frame list \<Rightarrow> (expect \<times> frame list) option" where
  "close_array (ArrF vs # st) = reduce (JArr vs) st"
| "close_array _ = None"

fun close_object :: "frame list \<Rightarrow> (expect \<times> frame list) option" where
  "close_object (ObjF kvs # st) = reduce (JObj kvs) st"
| "close_object _ = None"

fun pstep :: "expect \<Rightarrow> frame list \<Rightarrow> token \<Rightarrow> (expect \<times> frame list) option" where
  "pstep EValue st t = start_value st t"
| "pstep EFirst st t = (if t = TRBrack then close_array st else start_value st t)"
| "pstep EKeyOrEnd st t =
     (case t of
        TStr k \<Rightarrow> Some (EColon, KeyF k # st)
      | TRBrace \<Rightarrow> close_object st
      | _ \<Rightarrow> None)"
| "pstep EKey st t = (case t of TStr k \<Rightarrow> Some (EColon, KeyF k # st) | _ \<Rightarrow> None)"
| "pstep EColon st t = (if t = TColon then Some (EValue, st) else None)"
| "pstep EAfter st t =
     (case t of
        TComma \<Rightarrow>
          (case st of
             ArrF vs # _ \<Rightarrow> Some (EValue, st)
           | ObjF kvs # _ \<Rightarrow> Some (EKey, st)
           | _ \<Rightarrow> None)
      | TRBrack \<Rightarrow> close_array st
      | TRBrace \<Rightarrow> close_object st
      | _ \<Rightarrow> None)"
| "pstep (EDone v) st t = None"

fun parse_tokens :: "expect \<Rightarrow> frame list \<Rightarrow> token list \<Rightarrow> jsval option" where
  "parse_tokens e st [] = (case e of EDone v \<Rightarrow> Some v | _ \<Rightarrow> None)"
| "parse_tokens e st (t # ts) =
     (case pstep e st t of
        None \<Rightarrow> None
      | Some (e', st') \<Rightarrow> parse_tokens e' st' ts)"

text \<open>\<^verbatim>\<open>JSON.parse(text)\<close>: \<open>None\<close> is the \<^verbatim>\<open>SyntaxError\<close>.\<close>

definition JSON_parse :: "js_string \<Rightarrow> jsval option" where
  "JSON_parse text =
     (case lex_go LIdle text of
        None \<Rightarrow> None
      | Some ts \<Rightarrow> parse_tokens EValue [] ts)"

subsection \<open>\<^verbatim>\<open>JSON.stringify\<close>\<close>

text \<open>
  \<^verbatim>\<open>QuoteJSONString\<close> of ECMA-262: the string between double quotes, with the quote,
  the backslash and the control characters escaped, and a surrogate that has no partner
  written as \<^verbatim>\<open>\uXXXX\<close> in lower-case hexadecimal. A leading surrogate followed by a
  trailing one is a pair and is copied.
\<close>

definition hex_digit :: "nat \<Rightarrow> code_unit" where
  "hex_digit d = (if d < 10 then of_nat (48 + d) else of_nat (87 + d))"

definition unicode_escape :: "code_unit \<Rightarrow> js_string" where
  "unicode_escape c =
     (let n = unat c
      in [0x5C, 0x75,
          hex_digit (n div 4096), hex_digit (n div 256 mod 16),
          hex_digit (n div 16 mod 16), hex_digit (n mod 16)])"

definition is_leading :: "code_unit \<Rightarrow> bool" where
  "is_leading c \<longleftrightarrow> 0xD800 \<le> c \<and> c \<le> 0xDBFF"

definition is_trailing :: "code_unit \<Rightarrow> bool" where
  "is_trailing c \<longleftrightarrow> 0xDC00 \<le> c \<and> c \<le> 0xDFFF"

definition escape_unit :: "code_unit \<Rightarrow> js_string" where
  "escape_unit c =
     (if c = 0x08 then [0x5C, 0x62]
      else if c = 0x09 then [0x5C, 0x74]
      else if c = 0x0A then [0x5C, 0x6E]
      else if c = 0x0C then [0x5C, 0x66]
      else if c = 0x0D then [0x5C, 0x72]
      else if c = 0x22 then [0x5C, 0x22]
      else if c = 0x5C then [0x5C, 0x5C]
      else if c < 0x20 then unicode_escape c
      else [c])"

fun quote_units :: "js_string \<Rightarrow> js_string" where
  "quote_units [] = []"
| "quote_units [c] =
     (if is_leading c \<or> is_trailing c then unicode_escape c else escape_unit c)"
| "quote_units (c # d # cs) =
     (if is_leading c \<and> is_trailing d then c # d # quote_units cs
      else if is_leading c \<or> is_trailing c then unicode_escape c @ quote_units (d # cs)
      else escape_unit c @ quote_units (d # cs))"

definition QuoteJSONString :: "js_string \<Rightarrow> js_string" where
  "QuoteJSONString s = [0x22] @ quote_units s @ [0x22]"

fun join_with :: "js_string \<Rightarrow> js_string list \<Rightarrow> js_string" where
  "join_with sep [] = []"
| "join_with sep [x] = x"
| "join_with sep (x # y # ys) = x @ sep @ join_with sep (y # ys)"

text \<open>
  \<^verbatim>\<open>SerializeJSONProperty\<close>: \<open>None\<close> is \<^verbatim>\<open>undefined\<close>. A property whose value
  is \<^verbatim>\<open>undefined\<close> is left out of an object; an element that is \<^verbatim>\<open>undefined\<close>
  is written \<^verbatim>\<open>null\<close> in an array. A number prints the text it carries, which is
  what JavaScript prints for \<^verbatim>\<open>200\<close> and \<^verbatim>\<open>0.7\<close>. The properties are written
  in the order of the list; the objects the handler serializes have each key once.
\<close>

fun serialize :: "jsval \<Rightarrow> js_string option"
  and serialize_elements :: "jsval list \<Rightarrow> js_string list"
  and serialize_properties :: "(js_string \<times> jsval) list \<Rightarrow> js_string list"
where
  "serialize JUndefined = None"
| "serialize JNull = Some (str ''null'')"
| "serialize (JBool b) = Some (if b then str ''true'' else str ''false'')"
| "serialize (JNum n) = Some n"
| "serialize (JStr s) = Some (QuoteJSONString s)"
| "serialize (JArr vs) =
     Some (str ''['' @ join_with (str '','') (serialize_elements vs) @ str '']'')"
| "serialize (JObj kvs) =
     Some (str ''{'' @ join_with (str '','') (serialize_properties kvs) @ str ''}'')"
| "serialize_elements [] = []"
| "serialize_elements (v # vs) =
     (case serialize v of None \<Rightarrow> str ''null'' | Some s \<Rightarrow> s) # serialize_elements vs"
| "serialize_properties [] = []"
| "serialize_properties ((k, v) # kvs) =
     (case serialize v of
        None \<Rightarrow> serialize_properties kvs
      | Some s \<Rightarrow> (QuoteJSONString k @ str '':'' @ s) # serialize_properties kvs)"

text \<open>\<^verbatim>\<open>JSON.stringify(v)\<close>, and the same for an object literal, where it always
  returns a string.\<close>

definition JSON_stringify :: "jsval \<Rightarrow> js_string option" where
  "JSON_stringify v = serialize v"

definition stringify_object :: "(js_string \<times> jsval) list \<Rightarrow> js_string" where
  "stringify_object kvs =
     str ''{'' @ join_with (str '','') (serialize_properties kvs) @ str ''}''"

subsection \<open>Property access and \<^verbatim>\<open>join\<close>\<close>

text \<open>
  \<open>member v k\<close> is \<^verbatim>\<open>v.k\<close>: reading a property of \<^verbatim>\<open>undefined\<close> or \<^verbatim>\<open>null\<close>
  throws a \<^verbatim>\<open>TypeError\<close> (\<open>None\<close>); an object gives its property, the last one
  written under that name, or \<^verbatim>\<open>undefined\<close>; every other value gives \<^verbatim>\<open>undefined\<close>.
  That is right for the names the handler reads (\<^verbatim>\<open>prompt\<close>, \<^verbatim>\<open>content\<close>,
  \<^verbatim>\<open>type\<close>, \<^verbatim>\<open>text\<close>, \<^verbatim>\<open>name\<close>, \<^verbatim>\<open>message\<close>): no prototype of a
  string, number, boolean, array or plain object defines one of them.
  \<open>opt_member v k\<close> is \<^verbatim>\<open>v?.k\<close>.
\<close>

definition own_property :: "(js_string \<times> jsval) list \<Rightarrow> js_string \<Rightarrow> jsval" where
  "own_property kvs k = (case map_of (rev kvs) k of None \<Rightarrow> JUndefined | Some v \<Rightarrow> v)"

fun member :: "jsval \<Rightarrow> js_string \<Rightarrow> jsval option" where
  "member JUndefined k = None"
| "member JNull k = None"
| "member (JObj kvs) k = Some (own_property kvs k)"
| "member v k = Some JUndefined"

definition opt_member :: "jsval \<Rightarrow> js_string \<Rightarrow> jsval" where
  "opt_member v k = (case member v k of None \<Rightarrow> JUndefined | Some x \<Rightarrow> x)"

text \<open>
  \<^verbatim>\<open>ToString\<close> and \<^verbatim>\<open>Array.prototype.join\<close>: \<^verbatim>\<open>undefined\<close> and \<^verbatim>\<open>null\<close>
  elements are joined as the empty string.
\<close>

fun ToString :: "jsval \<Rightarrow> js_string"
  and join_elements :: "jsval list \<Rightarrow> js_string list"
where
  "ToString JUndefined = str ''undefined''"
| "ToString JNull = str ''null''"
| "ToString (JBool b) = (if b then str ''true'' else str ''false'')"
| "ToString (JNum n) = n"
| "ToString (JStr s) = s"
| "ToString (JArr vs) = join_with (str '','') (join_elements vs)"
| "ToString (JObj kvs) = str ''[object Object]''"
| "join_elements [] = []"
| "join_elements (JUndefined # vs) = [] # join_elements vs"
| "join_elements (JNull # vs) = [] # join_elements vs"
| "join_elements (v # vs) = ToString v # join_elements vs"

definition Array_join :: "jsval list \<Rightarrow> js_string \<Rightarrow> js_string" where
  "Array_join vs sep = join_with sep (join_elements vs)"

subsection \<open>The event, the environment and the Bedrock client\<close>

text \<open>
  \<^verbatim>\<open>type ApiGatewayEvent = { body?: string | null }\<close>. The type names the one
  property the handler reads. The event that API Gateway sends has others (the method,
  the path, the headers); they are the extension of the record, and the functions below
  take an event with any extension.
\<close>

datatype body_field = BodyUndefined | BodyNull | BodyString js_string

record ApiGatewayEvent =
  body :: body_field

text \<open>\<^verbatim>\<open>process.env\<close>: a dictionary from the names of the variables that are set to
  their values.\<close>

type_synonym process_env = "js_string \<rightharpoonup> js_string"

text \<open>\<^verbatim>\<open>process.env.X || d\<close>: the default is taken when the variable is not set or
  is the empty string.\<close>

definition or_default :: "js_string option \<Rightarrow> js_string \<Rightarrow> js_string" where
  "or_default v d = (case v of None \<Rightarrow> d | Some s \<Rightarrow> if s = [] then d else s)"

record InvokeModelCommandInput =
  cmd_modelId :: js_string
  cmd_contentType :: js_string
  cmd_accept :: js_string
  cmd_body :: js_string

text \<open>
  A value of type \<^verbatim>\<open>any\<close>, as the \<^verbatim>\<open>catch (err: any)\<close> of line 127 meets it. The
  block does three things with \<^verbatim>\<open>err\<close>, and the value is given by what they do:
  \<^item> \<open>console_error err\<close> is the value that
    \<^verbatim>\<open>console.error("Bedrock invoke failed:", err)\<close> throws, when it throws;
  \<^item> \<open>get_name err\<close> is \<^verbatim>\<open>err?.name\<close>: \<open>Inl\<close> the value that a getter throws,
    \<open>Inr\<close> the value of the property;
  \<^item> \<open>get_message err\<close> is \<^verbatim>\<open>err?.message\<close>, likewise.
  The value of a property is JSON data (\<open>Json\<close>), a BigInt, or any other value (a
  function, a symbol, an object with a cycle or with a \<^verbatim>\<open>toJSON\<close> method, a proxy),
  which is given by what \<^verbatim>\<open>SerializeJSONProperty\<close> does with it: throw a value,
  or give a text or \<^verbatim>\<open>undefined\<close>.
\<close>

datatype any_value =
  Any (console_error: "any_value option")
      (get_name: "any_value + property_value")
      (get_message: "any_value + property_value")
and property_value =
    Json jsval
  | BigInt int
  | Opaque "any_value + js_string option"

text \<open>
  An object whose \<^verbatim>\<open>name\<close> and \<^verbatim>\<open>message\<close> are data properties with the given
  values; a value that is JSON data, whose two properties are read with \<open>opt_member\<close>;
  and an \<^verbatim>\<open>Error\<close> of the engine, with its string name and message.
  \<^verbatim>\<open>console.error\<close> prints all of these.
\<close>

definition plain_object :: "property_value \<Rightarrow> property_value \<Rightarrow> any_value" where
  "plain_object name message = Any None (Inr name) (Inr message)"

definition data_value :: "jsval \<Rightarrow> any_value" where
  "data_value v =
     plain_object (Json (opt_member v (str ''name''))) (Json (opt_member v (str ''message'')))"

definition native_error :: "js_string \<Rightarrow> js_string \<Rightarrow> any_value" where
  "native_error name message =
     data_value (JObj [(str ''name'', JStr name), (str ''message'', JStr message)])"

text \<open>
  What \<^verbatim>\<open>await client.send(...)\<close> followed by
  \<^verbatim>\<open>new TextDecoder().decode(resp.body)\<close> can do: the call throws a value; the call
  returns and reading or decoding \<^verbatim>\<open>resp.body\<close> throws a value; or decoding gives a
  string. A \<^verbatim>\<open>TextDecoder\<close> made without options decodes every byte sequence, so
  the decoded string stands for the payload.
\<close>

datatype send_result = Rejected any_value | Undecodable any_value | Payload js_string

type_synonym bedrock_client = "InvokeModelCommandInput \<Rightarrow> send_result"

text \<open>\<^verbatim>\<open>new BedrockRuntimeClient({ region })\<close>: the constructor throws a value or
  returns a client.\<close>

type_synonym bedrock_sdk = "js_string \<Rightarrow> any_value + bedrock_client"

text \<open>The texts the engine puts in the errors it throws itself are its own affair.\<close>

record engine =
  syntax_error_message :: "js_string \<Rightarrow> js_string"
  type_error_message :: "jsval \<Rightarrow> js_string \<Rightarrow> js_string"
  bigint_error_message :: js_string

record http_response =
  statusCode :: nat
  headers :: "(js_string \<times> js_string) list"
  response_body :: js_string

subsection \<open>The handler, lines 20 to 144 of \<^verbatim>\<open>chat.ts\<close>\<close>

definition default_prompt :: js_string where
  "default_prompt = str ''Hello from Bedrock!''"

text \<open>
  Lines 38 to 44, the body of the first \<^verbatim>\<open>try\<close>, started with \<open>prompt\<close>: \<open>None\<close>
  when \<^verbatim>\<open>JSON.parse\<close> or \<^verbatim>\<open>parsed.prompt\<close> throws, else the value of
  \<open>prompt\<close> at the end. \<^verbatim>\<open>if (event.body)\<close> is false for \<^verbatim>\<open>undefined\<close>,
  \<^verbatim>\<open>null\<close> and the empty string.
\<close>

definition read_prompt :: "'a ApiGatewayEvent_scheme \<Rightarrow> js_string \<Rightarrow> js_string option" where
  "read_prompt event prompt =
     (case body event of
        BodyString b \<Rightarrow>
          if b = [] then Some prompt
          else
            (case JSON_parse b of
               None \<Rightarrow> None
             | Some parsed \<Rightarrow>
                 (case member parsed (str ''prompt'') of
                    None \<Rightarrow> None
                  | Some (JStr p) \<Rightarrow> Some p
                  | Some _ \<Rightarrow> Some prompt))
      | _ \<Rightarrow> Some prompt)"

text \<open>Lines 32 to 47: the \<^verbatim>\<open>catch\<close> is empty, so \<open>prompt\<close> keeps its default.\<close>

definition normalize_prompt :: "'a ApiGatewayEvent_scheme \<Rightarrow> js_string" where
  "normalize_prompt event =
     (case read_prompt event default_prompt of
        None \<Rightarrow> default_prompt
      | Some prompt \<Rightarrow> prompt)"

text \<open>Lines 63 to 78: the object given to \<^verbatim>\<open>JSON.stringify\<close>.\<close>

definition request_object :: "js_string \<Rightarrow> (js_string \<times> jsval) list" where
  "request_object prompt =
     [(str ''anthropic_version'', JStr (str ''bedrock-2023-05-31'')),
      (str ''max_tokens'', JNum (str ''200'')),
      (str ''temperature'', JNum (str ''0.7'')),
      (str ''messages'',
       JArr [JObj [(str ''role'', JStr (str ''user'')),
                   (str ''content'',
                    JArr [JObj [(str ''type'', JStr (str ''text'')),
                                (str ''text'', JStr prompt)]])]])]"

text \<open>Lines 25 to 27 and 86 to 91: where the request goes and what is sent.\<close>

definition region_of :: "process_env \<Rightarrow> js_string" where
  "region_of env = or_default (env (str ''BEDROCK_REGION'')) (str ''us-east-1'')"

definition modelId_of :: "process_env \<Rightarrow> js_string" where
  "modelId_of env =
     or_default (env (str ''MODEL_ID'')) (str ''anthropic.claude-3-sonnet-20240229-v1:0'')"

definition build_command :: "process_env \<Rightarrow> js_string \<Rightarrow> InvokeModelCommandInput" where
  "build_command env prompt =
     \<lparr>cmd_modelId = modelId_of env,
      cmd_contentType = str ''application/json'',
      cmd_accept = str ''application/json'',
      cmd_body = stringify_object (request_object prompt)\<rparr>"

text \<open>
  Lines 104 to 112. \<open>is_text_block\<close> is the predicate given to \<^verbatim>\<open>filter\<close>;
  \<open>is_string v\<close> is \<^verbatim>\<open>typeof v === "string"\<close>. \<open>map_text\<close> is
  \<^verbatim>\<open>.map((block) => block.text)\<close>, where \<^verbatim>\<open>block.text\<close> is a plain property
  access and would throw on \<^verbatim>\<open>null\<close>.
\<close>

definition is_string :: "jsval \<Rightarrow> bool" where
  "is_string v = (case v of JStr s \<Rightarrow> True | _ \<Rightarrow> False)"

definition is_text_block :: "jsval \<Rightarrow> bool" where
  "is_text_block block \<longleftrightarrow>
     opt_member block (str ''type'') = JStr (str ''text'')
     \<and> is_string (opt_member block (str ''text''))"

fun map_text :: "engine \<Rightarrow> jsval list \<Rightarrow> any_value + jsval list" where
  "map_text eng [] = Inr []"
| "map_text eng (block # blocks) =
     (case member block (str ''text'') of
        None \<Rightarrow>
          Inl (native_error (str ''TypeError'')
                 (type_error_message eng block (str ''text'')))
      | Some t \<Rightarrow>
          (case map_text eng blocks of
             Inl err \<Rightarrow> Inl err
           | Inr ts \<Rightarrow> Inr (t # ts)))"

definition extract_text :: "engine \<Rightarrow> jsval \<Rightarrow> any_value + js_string" where
  "extract_text eng raw =
     (case opt_member raw (str ''content'') of
        JArr content \<Rightarrow>
          (case map_text eng (filter is_text_block content) of
             Inl err \<Rightarrow> Inl err
           | Inr ts \<Rightarrow> Inr (Array_join ts []))
      | _ \<Rightarrow> Inr [])"

text \<open>Lines 85 to 112, the second \<^verbatim>\<open>try\<close> up to \<open>text\<close>: \<open>Inl\<close> is the value
  thrown, \<open>Inr\<close> the text.\<close>

definition invoke_and_extract :: "engine \<Rightarrow> send_result \<Rightarrow> any_value + js_string" where
  "invoke_and_extract eng resp =
     (case resp of
        Rejected err \<Rightarrow> Inl err
      | Undecodable err \<Rightarrow> Inl err
      | Payload decoded \<Rightarrow>
          (case JSON_parse decoded of
             None \<Rightarrow>
               Inl (native_error (str ''SyntaxError'') (syntax_error_message eng decoded))
           | Some raw \<Rightarrow> extract_text eng raw))"

text \<open>Lines 117 to 126: the response of the success path. Its four values are strings,
  so \<^verbatim>\<open>JSON.stringify\<close> returns.\<close>

definition success_body :: "js_string \<Rightarrow> js_string \<Rightarrow> js_string \<Rightarrow> js_string
    \<Rightarrow> (js_string \<times> jsval) list" where
  "success_body region modelId prompt text =
     [(str ''region'', JStr region), (str ''modelId'', JStr modelId),
      (str ''prompt'', JStr prompt), (str ''text'', JStr text)]"

definition json_response :: "nat \<Rightarrow> js_string \<Rightarrow> http_response" where
  "json_response status text =
     \<lparr>statusCode = status,
      headers = [(str ''content-type'', str ''application/json'')],
      response_body = text\<rparr>"

text \<open>
  Lines 137 to 141: \<^verbatim>\<open>JSON.stringify\<close> of the failure object, whose second and
  third values are whatever \<^verbatim>\<open>err?.name\<close> and \<^verbatim>\<open>err?.message\<close> gave. The
  properties are serialized in order; a BigInt makes \<^verbatim>\<open>JSON.stringify\<close> throw a
  \<^verbatim>\<open>TypeError\<close>, and the first value that throws ends the call.
\<close>

definition serialize_value :: "engine \<Rightarrow> property_value \<Rightarrow> any_value + js_string option" where
  "serialize_value eng v =
     (case v of
        Json d \<Rightarrow> Inr (serialize d)
      | BigInt i \<Rightarrow> Inl (native_error (str ''TypeError'') (bigint_error_message eng))
      | Opaque result \<Rightarrow> result)"

fun serialize_members ::
    "engine \<Rightarrow> (js_string \<times> property_value) list \<Rightarrow> any_value + js_string list" where
  "serialize_members eng [] = Inr []"
| "serialize_members eng ((k, v) # kvs) =
     (case serialize_value eng v of
        Inl err \<Rightarrow> Inl err
      | Inr s \<Rightarrow>
          (case serialize_members eng kvs of
             Inl err \<Rightarrow> Inl err
           | Inr parts \<Rightarrow>
               Inr ((case s of
                       None \<Rightarrow> []
                     | Some t \<Rightarrow> [QuoteJSONString k @ str '':'' @ t]) @ parts)))"

definition stringify_members ::
    "engine \<Rightarrow> (js_string \<times> property_value) list \<Rightarrow> any_value + js_string" where
  "stringify_members eng kvs =
     (case serialize_members eng kvs of
        Inl err \<Rightarrow> Inl err
      | Inr parts \<Rightarrow> Inr (str ''{'' @ join_with (str '','') parts @ str ''}''))"

definition failure_body ::
    "property_value \<Rightarrow> property_value \<Rightarrow> (js_string \<times> property_value) list" where
  "failure_body errorName errorMessage =
     [(str ''message'', Json (JStr (str ''Bedrock invoke failed''))),
      (str ''errorName'', errorName),
      (str ''errorMessage'', errorMessage)]"

text \<open>
  Lines 127 to 143, the \<^verbatim>\<open>catch\<close> block: log the value, read its name and its
  message, serialize, return. Nothing guards these steps, so a value thrown by one of
  them leaves the handler (\<open>Inl\<close>).
\<close>

definition catch_block :: "engine \<Rightarrow> any_value \<Rightarrow> any_value + http_response" where
  "catch_block eng err =
     (case console_error err of
        Some thrown \<Rightarrow> Inl thrown
      | None \<Rightarrow>
          (case get_name err of
             Inl thrown \<Rightarrow> Inl thrown
           | Inr errorName \<Rightarrow>
               (case get_message err of
                  Inl thrown \<Rightarrow> Inl thrown
                | Inr errorMessage \<Rightarrow>
                    (case stringify_members eng (failure_body errorName errorMessage) of
                       Inl thrown \<Rightarrow> Inl thrown
                     | Inr text \<Rightarrow> Inr (json_response 500 text)))))"

text \<open>
  One run of the handler: the region the client is asked for, the commands that are sent
  (none when the constructor of line 53, which is outside both \<^verbatim>\<open>try\<close> blocks,
  throws) and the outcome: \<open>Inl\<close> the value the handler throws, \<open>Inr\<close> the response
  it returns. The source has no binding outside \<^verbatim>\<open>handler\<close> other than its imports
  and the type of the event, so a run starts from its arguments alone.
\<close>

record invocation =
  client_region :: js_string
  sent :: "InvokeModelCommandInput list"
  outcome :: "any_value + http_response"

definition run_handler ::
    "engine \<Rightarrow> process_env \<Rightarrow> bedrock_sdk \<Rightarrow> 'a ApiGatewayEvent_scheme \<Rightarrow> invocation" where
  "run_handler eng env sdk event =
     (let region = region_of env;
          modelId = modelId_of env;
          prompt = normalize_prompt event
      in case sdk region of
           Inl thrown \<Rightarrow> \<lparr>client_region = region, sent = [], outcome = Inl thrown\<rparr>
         | Inr client \<Rightarrow>
             (let command = build_command env prompt
              in \<lparr>client_region = region,
                  sent = [command],
                  outcome =
                    (case invoke_and_extract eng (client command) of
                       Inr text \<Rightarrow>
                         Inr (json_response 200
                                (stringify_object (success_body region modelId prompt text)))
                     | Inl err \<Rightarrow> catch_block eng err)\<rparr>))"

definition handler ::
    "engine \<Rightarrow> process_env \<Rightarrow> bedrock_sdk \<Rightarrow> 'a ApiGatewayEvent_scheme
      \<Rightarrow> any_value + http_response" where
  "handler eng env sdk event = outcome (run_handler eng env sdk event)"

subsection \<open>The extractor as the specification words it\<close>

text \<open>
  Section 4.4 of the specification: keep the blocks whose \<^verbatim>\<open>type\<close> is \<^verbatim>\<open>"text"\<close>
  and whose \<^verbatim>\<open>text\<close> is a string, and concatenate their \<^verbatim>\<open>text\<close> values in the
  original order with no separator. Only an object has properties, so every other block
  fails the predicates. This is not taken from the source; it is what the source's
  \<open>extract_text\<close> is compared with.
\<close>

definition spec_block_text :: "jsval \<Rightarrow> js_string option" where
  "spec_block_text block =
     (case block of
        JObj kvs \<Rightarrow>
          if own_property kvs (str ''type'') = JStr (str ''text'')
          then (case own_property kvs (str ''text'') of JStr t \<Rightarrow> Some t | _ \<Rightarrow> None)
          else None
      | _ \<Rightarrow> None)"

definition spec_extract :: "jsval list \<Rightarrow> js_string" where
  "spec_extract content = concat (List.map_filter spec_block_text content)"

subsection \<open>The caught values the handler can report\<close>



subsection \<open>Sample inputs\<close>

text \<open>
  Concrete inputs for checking the theorems below: an engine, an environment with the
  region set, the model left to its default and one more variable, an SDK whose client
  answers every request with the same text and one whose client throws the same value
  every time.
\<close>

definition sample_engine :: engine where
  "sample_engine =
     \<lparr>syntax_error_message = (\<lambda>text. str ''Unexpected token in JSON''),
      type_error_message = (\<lambda>v k. str ''Cannot read properties of null''),
      bigint_error_message = str ''Do not know how to serialize a BigInt''\<rparr>"

definition sample_env :: process_env where
  "sample_env =
     [str ''BEDROCK_REGION'' \<mapsto> str ''eu-west-1'', str ''AWS_REGION'' \<mapsto> str ''us-west-2'']"

definition answering :: "js_string \<Rightarrow> bedrock_sdk" where
  "answering decoded = (\<lambda>region. Inr (\<lambda>command. Payload decoded))"

definition throwing :: "any_value \<Rightarrow> bedrock_sdk" where
  "throwing err = (\<lambda>region. Inr (\<lambda>command. Rejected err))"

section \<open>Properties\<close>

subsection \<open>A quoted string is read back as it was\<close>

text \<open>
  What \<^verbatim>\<open>JSON.stringify\<close> writes for a string, \<^verbatim>\<open>JSON.parse\<close> reads as that
  string, whatever the code units are and whatever follows the closing quote.
\<close>

lemma hex_digits_all: "list_all (\<lambda>d. hex_val (hex_digit d) = Some d) [0..<16]"
  by code_simp

lemma hex_val_hex_digit: "d < 16 \<Longrightarrow> hex_val (hex_digit d) = Some d"
  using hex_digits_all by (simp add: list_all_iff)

lemma hex_value4: "hex_value [n div 4096, n div 256 mod 16, n div 16 mod 16, n mod 16] = n"
proof -
  have d1: "n div 256 = n div 16 div 16" and d2: "n div 4096 = n div 16 div 16 div 16"
    by (simp_all add: div_mult2_eq [symmetric])
  have "16 * (16 * (16 * (n div 16 div 16 div 16) + n div 16 div 16 mod 16) + n div 16 mod 16) + n mod 16 = n"
    by simp
  then show ?thesis by (simp add: hex_value_def d1 d2)
qed

lemma unat_code_unit: "unat (c :: code_unit) < 65536"
  using unsigned_less [of c, where ?'a = nat] by simp

lemma lex_unicode_escape:
  "lex_go (LStr acc) (unicode_escape c @ rest) = lex_go (LStr (acc @ [c])) rest"
proof -
  have "unat c div 4096 < 16" using unat_code_unit [of c] by simp
  then show ?thesis
    by (simp add: unicode_escape_def Let_def unescape_def hex_val_hex_digit hex_value4)
qed

lemma lex_escape_unit:
  "lex_go (LStr acc) (escape_unit c @ rest) = lex_go (LStr (acc @ [c])) rest"
  by (simp add: escape_unit_def lex_unicode_escape unescape_def)

lemma surrogate_plain:
  assumes "is_leading c \<or> is_trailing c"
  shows "c \<noteq> 0x22" and "c \<noteq> 0x5C" and "\<not> c < 0x20"
  using assms by (auto simp add: is_leading_def is_trailing_def word_le_nat_alt word_less_nat_alt)

lemma lex_pair:
  "is_leading c \<Longrightarrow> is_trailing d \<Longrightarrow>
   lex_go (LStr acc) (c # d # rest) = lex_go (LStr (acc @ [c, d])) rest"
  by (simp add: surrogate_plain)

lemma lex_quote_units:
  "lex_go (LStr acc) (quote_units s @ 0x22 # rest) =
   map_option ((#) (TStr (acc @ s))) (lex_go LIdle rest)"
proof (induction s arbitrary: acc rule: quote_units.induct)
  case 1
  show ?case by simp
next
  case (2 c)
  show ?case
    by (cases "is_leading c \<or> is_trailing c") (simp_all add: lex_unicode_escape lex_escape_unit)
next
  case (3 c d cs)
  consider (pair) "is_leading c" "is_trailing d"
    | (lone) "\<not> (is_leading c \<and> is_trailing d)" "is_leading c \<or> is_trailing c"
    | (plain) "\<not> is_leading c" "\<not> is_trailing c"
    by blast
  then show ?case
  proof cases
    case pair
    then have "lex_go (LStr acc) (quote_units (c # d # cs) @ 0x22 # rest) =
        lex_go (LStr (acc @ [c, d])) (quote_units cs @ 0x22 # rest)"
      using lex_pair [of c d acc] by simp
    also have "\<dots> = map_option ((#) (TStr ((acc @ [c, d]) @ cs))) (lex_go LIdle rest)"
      using pair "3.IH"(1) by blast
    finally show ?thesis by simp
  next
    case lone
    then have "lex_go (LStr acc) (quote_units (c # d # cs) @ 0x22 # rest) =
        lex_go (LStr (acc @ [c])) (quote_units (d # cs) @ 0x22 # rest)"
      using lex_unicode_escape [of acc c] by auto
    also have "\<dots> = map_option ((#) (TStr ((acc @ [c]) @ d # cs))) (lex_go LIdle rest)"
      using lone "3.IH"(2) by blast
    finally show ?thesis by simp
  next
    case plain
    then have "lex_go (LStr acc) (quote_units (c # d # cs) @ 0x22 # rest) =
        lex_go (LStr (acc @ [c])) (quote_units (d # cs) @ 0x22 # rest)"
      using lex_escape_unit [of acc c] by auto
    also have "\<dots> = map_option ((#) (TStr ((acc @ [c]) @ d # cs))) (lex_go LIdle rest)"
      using plain "3.IH"(3) by blast
    finally show ?thesis by simp
  qed
qed

lemma map_option_append_Nil: "map_option ((@) []) x = x"
  by (cases x) simp_all

lemma lex_quoted:
  "lex_go LIdle (QuoteJSONString s @ rest) = map_option ((#) (TStr s)) (lex_go LIdle rest)"
  using lex_quote_units [of "[]" s rest]
  by (simp add: QuoteJSONString_def idle_def map_option_append_Nil)

subsection \<open>Evaluating the parser and the handler's stages\<close>

lemmas lex_eval = JSON_parse_def str_def idle_def is_digit_def is_exp_def
  map_option_append_Nil lex_quoted

lemma parse_empty: "JSON_parse [] = None"
  by (simp add: JSON_parse_def)

lemma default_prompt_nonempty: "default_prompt \<noteq> []"
  by (simp add: default_prompt_def str_def)

text \<open>The two \<^verbatim>\<open>try\<close>/\<^verbatim>\<open>catch\<close> levels of lines 32 to 47 as one case analysis.\<close>

lemma normalize_cases:
  "normalize_prompt event =
     (case body event of
        BodyString b \<Rightarrow>
          (case JSON_parse b of
             Some parsed \<Rightarrow>
               (case member parsed (str ''prompt'') of
                  Some (JStr p) \<Rightarrow> p
                | _ \<Rightarrow> default_prompt)
           | None \<Rightarrow> default_prompt)
      | _ \<Rightarrow> default_prompt)"
  by (simp add: normalize_prompt_def read_prompt_def parse_empty
      split: body_field.splits option.splits jsval.splits)

lemma request_text:
  \<open>stringify_object (request_object p) =
     str ''{"anthropic_version":"bedrock-2023-05-31","max_tokens":200,"temperature":0.7,"messages":[{"role":"user","content":[{"type":"text","text":''
     @ QuoteJSONString p @ str ''}]}]}''\<close>
  by (simp add: stringify_object_def request_object_def str_def QuoteJSONString_def
      is_leading_def is_trailing_def escape_unit_def)

lemma parse_request:
  "JSON_parse (stringify_object (request_object p)) = Some (JObj (request_object p))"
  by (simp add: stringify_object_def request_object_def lex_eval)

lemma run_handler_sent:
  "sent (run_handler eng env sdk event) =
     (case sdk (region_of env) of
        Inl thrown \<Rightarrow> []
      | Inr client \<Rightarrow> [build_command env (normalize_prompt event)])"
  by (simp add: run_handler_def Let_def split: sum.splits)

lemma run_handler_region:
  "client_region (run_handler eng env sdk event) = region_of env"
  by (simp add: run_handler_def Let_def split: sum.splits)

lemma answering_constructs: "answering decoded region = Inr (\<lambda>command. Payload decoded)"
  by (simp add: answering_def)

lemma throwing_constructs: "throwing err region = Inr (\<lambda>command. Rejected err)"
  by (simp add: throwing_def)

subsection \<open>The prompt\<close>

text \<open>
  C1, as the code has it. The prompt that reaches the request builder is the string the
  caller gave as \<^verbatim>\<open>prompt\<close>, taken as it is, or the default literal, which is not
  empty. The handler tests \<^verbatim>\<open>typeof parsed.prompt === "string"\<close> and nothing else,
  so the prompt is empty exactly when the body parses to a value whose \<^verbatim>\<open>prompt\<close>
  is the empty string.
\<close>

theorem prompt_default_or_supplied:
  "(normalize_prompt event = default_prompt
    \<or> (\<exists>b parsed. body event = BodyString b \<and> JSON_parse b = Some parsed
          \<and> member parsed (str ''prompt'') = Some (JStr (normalize_prompt event))))
   \<and> default_prompt \<noteq> []
   \<and> (normalize_prompt event = [] \<longleftrightarrow>
        (\<exists>b parsed. body event = BodyString b \<and> JSON_parse b = Some parsed
          \<and> member parsed (str ''prompt'') = Some (JStr [])))"
  using default_prompt_nonempty
  by (auto simp add: normalize_cases split: body_field.splits option.splits jsval.splits)

text \<open>The theorem at the body \<^verbatim>\<open>{"prompt":"Say hi"}\<close>: the supplied prompt is used.\<close>

theorem prompt_default_or_supplied_witness:
  \<open>normalize_prompt \<lparr>body = BodyString (str ''{"prompt":"Say hi"}'')\<rparr> = str ''Say hi''
   \<and> normalize_prompt \<lparr>body = BodyString (str ''{"prompt":"Say hi"}'')\<rparr> \<noteq> []
   \<and> normalize_prompt \<lparr>body = BodyString (str ''{"prompt":"Say hi"}'')\<rparr> \<noteq> default_prompt
   \<and> (\<exists>b parsed. body \<lparr>body = BodyString (str ''{"prompt":"Say hi"}'')\<rparr> = BodyString b
         \<and> JSON_parse b = Some parsed
         \<and> member parsed (str ''prompt'') = Some (JStr (str ''Say hi'')))\<close>
proof -
  let ?ev = \<open>\<lparr>body = BodyString (str ''{"prompt":"Say hi"}'')\<rparr>\<close>
  have v: "normalize_prompt ?ev = str ''Say hi''"
    by (simp add: normalize_cases lex_eval own_property_def)
  have d: "normalize_prompt ?ev \<noteq> default_prompt"
    by (simp add: v) (simp add: default_prompt_def str_def)
  have n: "str ''Say hi'' \<noteq> []"
    by (simp add: str_def)
  show ?thesis
    using prompt_default_or_supplied [of ?ev] v d n by auto
qed

text \<open>
  C1 as the specification states it, that the prompt is never empty, fails at the body
  \<^verbatim>\<open>{"prompt":""}\<close>: the prompt is empty and so is the text block that is sent.
\<close>

theorem empty_prompt_counterexample:
  \<open>normalize_prompt \<lparr>body = BodyString (str ''{"prompt":""}'')\<rparr> = []
   \<and> map cmd_body (sent (run_handler sample_engine sample_env (answering [])
         \<lparr>body = BodyString (str ''{"prompt":""}'')\<rparr>)) =
       [str ''{"anthropic_version":"bedrock-2023-05-31","max_tokens":200,"temperature":0.7,"messages":[{"role":"user","content":[{"type":"text","text":""}]}]}'']\<close>
proof -
  have v: \<open>normalize_prompt \<lparr>body = BodyString (str ''{"prompt":""}'')\<rparr> = []\<close>
    by (simp add: normalize_cases lex_eval own_property_def)
  show ?thesis
    by (simp add: v run_handler_sent answering_constructs build_command_def request_text)
       (simp add: str_def QuoteJSONString_def)
qed

subsection \<open>The request\<close>

text \<open>
  C7. When the body parses as JSON and the \<^verbatim>\<open>prompt\<close> of the parsed value is a
  string \<open>s\<close>, the prompt is \<open>s\<close>, code unit for code unit, and the request that is
  sent carries \<open>s\<close> as the text of its only content block: the payload is the fixed text
  around the quoted \<open>s\<close>, and parsing the payload gives the block text \<open>s\<close> back.
\<close>

theorem supplied_prompt_verbatim:
  assumes "body event = BodyString b"
    and "JSON_parse b = Some parsed"
    and "member parsed (str ''prompt'') = Some (JStr s)"
  shows \<open>normalize_prompt event = s
    \<and> sent (run_handler eng env sdk event) =
        (case sdk (region_of env) of Inl thrown \<Rightarrow> [] | Inr client \<Rightarrow> [build_command env s])
    \<and> cmd_body (build_command env s) =
        str ''{"anthropic_version":"bedrock-2023-05-31","max_tokens":200,"temperature":0.7,"messages":[{"role":"user","content":[{"type":"text","text":''
        @ QuoteJSONString s @ str ''}]}]}''
    \<and> JSON_parse (cmd_body (build_command env s)) =
        Some (JObj
          [(str ''anthropic_version'', JStr (str ''bedrock-2023-05-31'')),
           (str ''max_tokens'', JNum (str ''200'')),
           (str ''temperature'', JNum (str ''0.7'')),
           (str ''messages'',
            JArr [JObj [(str ''role'', JStr (str ''user'')),
                        (str ''content'',
                         JArr [JObj [(str ''type'', JStr (str ''text'')),
                                     (str ''text'', JStr s)]])]])])\<close>
proof -
  have p: "normalize_prompt event = s"
    using assms by (simp add: normalize_cases)
  have b: "cmd_body (build_command env s) = stringify_object (request_object s)"
    by (simp add: build_command_def)
  have v: "sent (run_handler eng env sdk event) =
      (case sdk (region_of env) of Inl thrown \<Rightarrow> [] | Inr client \<Rightarrow> [build_command env s])"
    by (simp add: run_handler_sent p split: sum.splits)
  have r: "JSON_parse (cmd_body (build_command env s)) = Some (JObj (request_object s))"
    by (simp add: b parse_request)
  show ?thesis
    using p v r by (simp add: b request_text) (simp add: request_object_def)
qed

text \<open>The theorem at a body whose prompt has leading, inner and trailing spaces.\<close>

theorem supplied_prompt_verbatim_witness:
  \<open>body \<lparr>body = BodyString (str ''{"prompt":" Say  hi ","max_tokens":5}'')\<rparr> =
     BodyString (str ''{"prompt":" Say  hi ","max_tokens":5}'')
   \<and> JSON_parse (str ''{"prompt":" Say  hi ","max_tokens":5}'') =
       Some (JObj [(str ''prompt'', JStr (str '' Say  hi '')), (str ''max_tokens'', JNum (str ''5''))])
   \<and> member (JObj [(str ''prompt'', JStr (str '' Say  hi '')), (str ''max_tokens'', JNum (str ''5''))])
         (str ''prompt'') = Some (JStr (str '' Say  hi ''))
   \<and> normalize_prompt \<lparr>body = BodyString (str ''{"prompt":" Say  hi ","max_tokens":5}'')\<rparr> =
       str '' Say  hi ''
   \<and> map cmd_body (sent (run_handler sample_engine sample_env (answering [])
         \<lparr>body = BodyString (str ''{"prompt":" Say  hi ","max_tokens":5}'')\<rparr>)) =
       [str ''{"anthropic_version":"bedrock-2023-05-31","max_tokens":200,"temperature":0.7,"messages":[{"role":"user","content":[{"type":"text","text":" Say  hi "}]}]}'']\<close>
proof -
  let ?b = \<open>str ''{"prompt":" Say  hi ","max_tokens":5}''\<close>
  let ?parsed = \<open>JObj [(str ''prompt'', JStr (str '' Say  hi '')), (str ''max_tokens'', JNum (str ''5''))]\<close>
  have h1: "body \<lparr>body = BodyString ?b\<rparr> = BodyString ?b" by simp
  have h2: "JSON_parse ?b = Some ?parsed" by (simp add: lex_eval)
  have h3: "member ?parsed (str ''prompt'') = Some (JStr (str '' Say  hi ''))"
    by (simp add: own_property_def str_def)
  have q: \<open>QuoteJSONString (str '' Say  hi '') = str ''" Say  hi "''\<close>
    by (simp add: str_def QuoteJSONString_def is_leading_def is_trailing_def escape_unit_def)
  note t = supplied_prompt_verbatim [OF h1 h2 h3, of sample_engine sample_env "answering []"]
  have c: \<open>map cmd_body (sent (run_handler sample_engine sample_env (answering []) \<lparr>body = BodyString ?b\<rparr>)) =
      [str ''{"anthropic_version":"bedrock-2023-05-31","max_tokens":200,"temperature":0.7,"messages":[{"role":"user","content":[{"type":"text","text":" Say  hi "}]}]}'']\<close>
    using t [THEN conjunct2, THEN conjunct1] t [THEN conjunct2, THEN conjunct2, THEN conjunct1]
    by (simp add: answering_constructs q) (simp add: str_def)
  show ?thesis
    by (intro conjI h1 h2 h3 t [THEN conjunct1] c)
qed

text \<open>
  C5. For every prompt \<open>p\<close> and every environment the request payload is the JSON object
  with \<^verbatim>\<open>anthropic_version\<close> \<^verbatim>\<open>"bedrock-2023-05-31"\<close>, \<^verbatim>\<open>max_tokens\<close> 200,
  \<^verbatim>\<open>temperature\<close> 0.7 and one message of role \<^verbatim>\<open>user\<close> whose content is the single
  block of type \<^verbatim>\<open>text\<close> with text \<open>p\<close>; the handler sends that payload for its
  normalized prompt, whatever else the event, the environment or the client are.
\<close>

theorem request_payload_fixed:
  \<open>cmd_body (build_command env p) =
     str ''{"anthropic_version":"bedrock-2023-05-31","max_tokens":200,"temperature":0.7,"messages":[{"role":"user","content":[{"type":"text","text":''
     @ QuoteJSONString p @ str ''}]}]}''
   \<and> JSON_parse (cmd_body (build_command env p)) =
       Some (JObj
         [(str ''anthropic_version'', JStr (str ''bedrock-2023-05-31'')),
          (str ''max_tokens'', JNum (str ''200'')),
          (str ''temperature'', JNum (str ''0.7'')),
          (str ''messages'',
           JArr [JObj [(str ''role'', JStr (str ''user'')),
                       (str ''content'',
                        JArr [JObj [(str ''type'', JStr (str ''text'')),
                                    (str ''text'', JStr p)]])]])])
   \<and> sent (run_handler eng env sdk event) =
       (case sdk (region_of env) of
          Inl thrown \<Rightarrow> []
        | Inr client \<Rightarrow> [build_command env (normalize_prompt event)])\<close>
  using request_text [of p] parse_request [of p]
  by (simp add: build_command_def run_handler_sent) (simp add: request_object_def)

text \<open>The theorem at a body that also asks for other generation parameters: they are
  not read.\<close>

theorem request_payload_fixed_witness:
  \<open>cmd_body (build_command sample_env (str ''Say hi'')) =
     str ''{"anthropic_version":"bedrock-2023-05-31","max_tokens":200,"temperature":0.7,"messages":[{"role":"user","content":[{"type":"text","text":"Say hi"}]}]}''
   \<and> map cmd_body (sent (run_handler sample_engine sample_env (answering [])
         \<lparr>body = BodyString (str ''{"prompt":"Say hi","max_tokens":5,"temperature":1}'')\<rparr>)) =
     [str ''{"anthropic_version":"bedrock-2023-05-31","max_tokens":200,"temperature":0.7,"messages":[{"role":"user","content":[{"type":"text","text":"Say hi"}]}]}'']\<close>
proof -
  let ?ev = \<open>\<lparr>body = BodyString (str ''{"prompt":"Say hi","max_tokens":5,"temperature":1}'')\<rparr>\<close>
  have v: "normalize_prompt ?ev = str ''Say hi''"
    by (simp add: normalize_cases lex_eval own_property_def)
  have q: \<open>QuoteJSONString (str ''Say hi'') = str ''"Say hi"''\<close>
    by (simp add: str_def QuoteJSONString_def is_leading_def is_trailing_def escape_unit_def)
  note t = request_payload_fixed [of sample_env "str ''Say hi''" sample_engine "answering []" ?ev]
  have c: \<open>cmd_body (build_command sample_env (str ''Say hi'')) =
     str ''{"anthropic_version":"bedrock-2023-05-31","max_tokens":200,"temperature":0.7,"messages":[{"role":"user","content":[{"type":"text","text":"Say hi"}]}]}''\<close>
    using t [THEN conjunct1] by (simp add: q) (simp add: str_def)
  have s: "sent (run_handler sample_engine sample_env (answering []) ?ev) =
      [build_command sample_env (str ''Say hi'')]"
    using t [THEN conjunct2, THEN conjunct2] by (simp add: answering_constructs v)
  show ?thesis
    by (simp add: s c)
qed

text \<open>
  C6. When the body is absent, \<^verbatim>\<open>null\<close>, the empty string, not parseable as JSON, or
  parseable to a value whose \<^verbatim>\<open>prompt\<close> is missing or not a string, the prompt is the
  default literal, and the whole run is the run of an event without a body: nothing of
  the failure reaches the caller.
\<close>

theorem malformed_body_gives_default:
  assumes "body event = BodyUndefined \<or> body event = BodyNull \<or> body event = BodyString []
      \<or> (\<exists>b. body event = BodyString b \<and> JSON_parse b = None)
      \<or> (\<exists>b parsed. body event = BodyString b \<and> JSON_parse b = Some parsed
            \<and> (\<forall>s. member parsed (str ''prompt'') \<noteq> Some (JStr s)))"
  shows "normalize_prompt event = default_prompt
    \<and> run_handler eng env sdk event = run_handler eng env sdk \<lparr>body = BodyUndefined\<rparr>"
proof -
  have p: "normalize_prompt event = default_prompt"
    using assms
    by (auto simp add: normalize_cases parse_empty
        split: body_field.splits option.splits jsval.splits)
  have u: "normalize_prompt \<lparr>body = BodyUndefined\<rparr> = default_prompt"
    by (simp add: normalize_cases)
  show ?thesis
    by (simp add: p u run_handler_def)
qed

text \<open>The theorem at the bodies \<^verbatim>\<open>undefined\<close>, \<^verbatim>\<open>null\<close>, \<^verbatim>\<open>""\<close>,
  \<^verbatim>\<open>not json\<close>, \<^verbatim>\<open>{"prompt": 42}\<close>, \<^verbatim>\<open>{"text": "hi"}\<close> and the JSON text
  \<^verbatim>\<open>null\<close>, whose \<^verbatim>\<open>parsed.prompt\<close> throws inside the \<^verbatim>\<open>try\<close>.\<close>

theorem malformed_body_gives_default_witness:
  \<open>normalize_prompt \<lparr>body = BodyUndefined\<rparr> = str ''Hello from Bedrock!''
   \<and> normalize_prompt \<lparr>body = BodyNull\<rparr> = str ''Hello from Bedrock!''
   \<and> normalize_prompt \<lparr>body = BodyString []\<rparr> = str ''Hello from Bedrock!''
   \<and> JSON_parse (str ''not json'') = None
   \<and> normalize_prompt \<lparr>body = BodyString (str ''not json'')\<rparr> = str ''Hello from Bedrock!''
   \<and> JSON_parse (str ''{"prompt": 42}'') = Some (JObj [(str ''prompt'', JNum (str ''42''))])
   \<and> normalize_prompt \<lparr>body = BodyString (str ''{"prompt": 42}'')\<rparr> = str ''Hello from Bedrock!''
   \<and> JSON_parse (str ''{"text": "hi"}'') = Some (JObj [(str ''text'', JStr (str ''hi''))])
   \<and> normalize_prompt \<lparr>body = BodyString (str ''{"text": "hi"}'')\<rparr> = str ''Hello from Bedrock!''
   \<and> JSON_parse (str ''null'') = Some JNull
   \<and> normalize_prompt \<lparr>body = BodyString (str ''null'')\<rparr> = str ''Hello from Bedrock!''\<close>
proof -
  have p1: "JSON_parse (str ''not json'') = None"
    by (simp add: lex_eval)
  have p2: \<open>JSON_parse (str ''{"prompt": 42}'') = Some (JObj [(str ''prompt'', JNum (str ''42''))])\<close>
    by (simp add: lex_eval)
  have p3: \<open>JSON_parse (str ''{"text": "hi"}'') = Some (JObj [(str ''text'', JStr (str ''hi''))])\<close>
    by (simp add: lex_eval)
  have p4: "JSON_parse (str ''null'') = Some JNull"
    by (simp add: lex_eval)
  have m2: \<open>\<forall>s. member (JObj [(str ''prompt'', JNum (str ''42''))]) (str ''prompt'') \<noteq> Some (JStr s)\<close>
    by (simp add: own_property_def)
  have m3: \<open>\<forall>s. member (JObj [(str ''text'', JStr (str ''hi''))]) (str ''prompt'') \<noteq> Some (JStr s)\<close>
    by (simp add: own_property_def str_def)
  have m4: \<open>\<forall>s. member JNull (str ''prompt'') \<noteq> Some (JStr s)\<close>
    by simp
  note dflt = malformed_body_gives_default [of _ sample_engine sample_env "answering []", THEN conjunct1]
  have "normalize_prompt \<lparr>body = BodyUndefined\<rparr> = default_prompt"
    by (rule dflt) simp
  moreover have "normalize_prompt \<lparr>body = BodyNull\<rparr> = default_prompt"
    by (rule dflt) simp
  moreover have "normalize_prompt \<lparr>body = BodyString []\<rparr> = default_prompt"
    by (rule dflt) simp
  moreover have "normalize_prompt \<lparr>body = BodyString (str ''not json'')\<rparr> = default_prompt"
    by (rule dflt) (simp add: p1)
  moreover have \<open>normalize_prompt \<lparr>body = BodyString (str ''{"prompt": 42}'')\<rparr> = default_prompt\<close>
    by (rule dflt) (insert p2 m2, simp)
  moreover have \<open>normalize_prompt \<lparr>body = BodyString (str ''{"text": "hi"}'')\<rparr> = default_prompt\<close>
    by (rule dflt) (insert p3 m3, simp)
  moreover have "normalize_prompt \<lparr>body = BodyString (str ''null'')\<rparr> = default_prompt"
    by (rule dflt) (insert p4 m4, simp)
  ultimately show ?thesis
    using p1 p2 p3 p4 by (simp add: default_prompt_def)
qed

text \<open>
  C10. The command the handler sends, and the region it asks a client for, depend on the
  body of the event and on the two variables \<^verbatim>\<open>BEDROCK_REGION\<close> and \<^verbatim>\<open>MODEL_ID\<close>,
  and on nothing else. Two runs whose events have the same body and whose environments
  agree on the two variables send the same command, byte for byte, whatever else differs
  between them: the other properties of the two events, the other variables, the two
  engines and the two SDKs, that is, what the constructor does and what the provider
  answers or throws. Each run sends that command once, or sends nothing when its
  constructor throws.
\<close>

theorem request_deterministic:
  fixes event1 :: "'a ApiGatewayEvent_scheme" and event2 :: "'b ApiGatewayEvent_scheme"
  assumes "body event1 = body event2"
    and "env1 (str ''BEDROCK_REGION'') = env2 (str ''BEDROCK_REGION'')"
    and "env1 (str ''MODEL_ID'') = env2 (str ''MODEL_ID'')"
  shows "client_region (run_handler eng1 env1 sdk1 event1) =
      client_region (run_handler eng2 env2 sdk2 event2)
    \<and> (\<exists>command.
          sent (run_handler eng1 env1 sdk1 event1) =
            (case sdk1 (region_of env1) of Inl thrown \<Rightarrow> [] | Inr client \<Rightarrow> [command])
          \<and> sent (run_handler eng2 env2 sdk2 event2) =
            (case sdk2 (region_of env2) of Inl thrown \<Rightarrow> [] | Inr client \<Rightarrow> [command]))"
proof -
  have p: "normalize_prompt event1 = normalize_prompt event2"
    using assms(1) by (simp add: normalize_prompt_def read_prompt_def)
  have c: "build_command env1 (normalize_prompt event1) = build_command env2 (normalize_prompt event2)"
    using assms(3) by (simp add: p build_command_def modelId_of_def)
  have r: "region_of env1 = region_of env2"
    using assms(2) by (simp add: region_of_def)
  show ?thesis
    using c r by (auto simp add: run_handler_sent run_handler_region split: sum.splits)
qed

text \<open>The theorem at two runs that differ in a variable the handler does not read, in
  a property of the event beside the body, in the engine and in the provider, which
  answers in one run and throws in the other.\<close>

theorem request_deterministic_witness:
  \<open>sample_env \<noteq> [str ''BEDROCK_REGION'' \<mapsto> str ''eu-west-1'', str ''LOG_LEVEL'' \<mapsto> str ''debug'']
   \<and> sample_env (str ''BEDROCK_REGION'') =
       [str ''BEDROCK_REGION'' \<mapsto> str ''eu-west-1'', str ''LOG_LEVEL'' \<mapsto> str ''debug'']
         (str ''BEDROCK_REGION'')
   \<and> sample_env (str ''MODEL_ID'') =
       [str ''BEDROCK_REGION'' \<mapsto> str ''eu-west-1'', str ''LOG_LEVEL'' \<mapsto> str ''debug'']
         (str ''MODEL_ID'')
   \<and> body \<lparr>body = BodyString (str ''{"prompt":"Say hi"}'')\<rparr> =
       body \<lparr>body = BodyString (str ''{"prompt":"Say hi"}''), \<dots> = str ''POST /chat''\<rparr>
   \<and> sent (run_handler sample_engine sample_env (answering (str ''{"content":[]}''))
        \<lparr>body = BodyString (str ''{"prompt":"Say hi"}'')\<rparr>) =
      sent (run_handler (sample_engine\<lparr>syntax_error_message := (\<lambda>text. text)\<rparr>)
        [str ''BEDROCK_REGION'' \<mapsto> str ''eu-west-1'', str ''LOG_LEVEL'' \<mapsto> str ''debug'']
        (throwing (data_value JNull))
        \<lparr>body = BodyString (str ''{"prompt":"Say hi"}''), \<dots> = str ''POST /chat''\<rparr>)
   \<and> map cmd_body (sent (run_handler sample_engine sample_env (answering (str ''{"content":[]}''))
        \<lparr>body = BodyString (str ''{"prompt":"Say hi"}'')\<rparr>)) =
      [str ''{"anthropic_version":"bedrock-2023-05-31","max_tokens":200,"temperature":0.7,"messages":[{"role":"user","content":[{"type":"text","text":"Say hi"}]}]}'']\<close>
proof -
  let ?ev1 = \<open>\<lparr>body = BodyString (str ''{"prompt":"Say hi"}'')\<rparr>\<close>
  let ?ev2 = \<open>\<lparr>body = BodyString (str ''{"prompt":"Say hi"}''), \<dots> = str ''POST /chat''\<rparr>\<close>
  let ?env2 = "[str ''BEDROCK_REGION'' \<mapsto> str ''eu-west-1'', str ''LOG_LEVEL'' \<mapsto> str ''debug'']"
  let ?eng2 = "sample_engine\<lparr>syntax_error_message := (\<lambda>text. text)\<rparr>"
  let ?sdk1 = \<open>answering (str ''{"content":[]}'')\<close>
  let ?sdk2 = "throwing (data_value JNull)"
  have d: "sample_env (str ''AWS_REGION'') \<noteq> ?env2 (str ''AWS_REGION'')"
    by (simp add: sample_env_def str_def)
  then have ne: "sample_env \<noteq> ?env2"
    by metis
  have h1: "body ?ev1 = body ?ev2"
    by simp
  have h2: "sample_env (str ''BEDROCK_REGION'') = ?env2 (str ''BEDROCK_REGION'')"
    by (simp add: sample_env_def str_def)
  have h3: "sample_env (str ''MODEL_ID'') = ?env2 (str ''MODEL_ID'')"
    by (simp add: sample_env_def str_def)
  note t = request_deterministic [OF h1 h2 h3, of sample_engine ?sdk1 ?eng2 ?sdk2]
  from t [THEN conjunct2] obtain command where
    a: "sent (run_handler sample_engine sample_env ?sdk1 ?ev1) =
      (case ?sdk1 (region_of sample_env) of Inl thrown \<Rightarrow> [] | Inr client \<Rightarrow> [command])"
    and b: "sent (run_handler ?eng2 ?env2 ?sdk2 ?ev2) =
      (case ?sdk2 (region_of ?env2) of Inl thrown \<Rightarrow> [] | Inr client \<Rightarrow> [command])"
    by blast
  have a': "sent (run_handler sample_engine sample_env ?sdk1 ?ev1) = [command]"
    using a by (simp only: answering_constructs sum.case)
  have b': "sent (run_handler ?eng2 ?env2 ?sdk2 ?ev2) = [command]"
    using b by (simp only: throwing_constructs sum.case)
  have e: "sent (run_handler sample_engine sample_env ?sdk1 ?ev1) =
      sent (run_handler ?eng2 ?env2 ?sdk2 ?ev2)"
    by (simp only: a' b')
  have v: "normalize_prompt ?ev1 = str ''Say hi''"
    by (simp add: normalize_cases lex_eval own_property_def)
  have q: \<open>QuoteJSONString (str ''Say hi'') = str ''"Say hi"''\<close>
    by (simp add: str_def QuoteJSONString_def is_leading_def is_trailing_def escape_unit_def)
  have c: \<open>map cmd_body (sent (run_handler sample_engine sample_env ?sdk1 ?ev1)) =
      [str ''{"anthropic_version":"bedrock-2023-05-31","max_tokens":200,"temperature":0.7,"messages":[{"role":"user","content":[{"type":"text","text":"Say hi"}]}]}'']\<close>
    by (simp add: run_handler_sent answering_constructs build_command_def request_text v q)
       (simp add: str_def)
  show ?thesis
    by (intro conjI ne h1 h2 h3 e c)
qed

subsection \<open>The extractor, the response bodies and the catch block\<close>

text \<open>
  The source's extractor agrees with the specification's wording on every parsed value,
  and \<^verbatim>\<open>block.text\<close> never throws: a block that passed the filter is an object.
\<close>

lemma join_with_Nil: "join_with [] xs = concat xs"
  by (induction "[] :: js_string" xs rule: join_with.induct) simp_all

lemma text_block_cases:
  "is_text_block b \<longleftrightarrow> (\<exists>t. spec_block_text b = Some t)"
  "spec_block_text b = Some t \<Longrightarrow> member b (str ''text'') = Some (JStr t)"
  by (cases b; auto simp add: is_text_block_def is_string_def opt_member_def spec_block_text_def
        split: jsval.splits if_splits)+

lemma map_text_filter:
  "map_text eng (filter is_text_block bs) = Inr (map JStr (List.map_filter spec_block_text bs))"
proof (induction bs)
  case Nil
  show ?case by (simp add: map_filter_simps)
next
  case (Cons b bs)
  show ?case
  proof (cases "spec_block_text b")
    case None
    then have "\<not> is_text_block b" by (simp add: text_block_cases(1))
    with None Cons show ?thesis by (simp add: map_filter_simps)
  next
    case (Some t)
    then have "is_text_block b" by (simp add: text_block_cases(1))
    with Some Cons text_block_cases(2) [OF Some] show ?thesis
      by (simp add: map_filter_simps)
  qed
qed

lemma join_elements_strings: "join_elements (map JStr ss) = ss"
  by (induction ss) simp_all

lemma extract_text_spec:
  "extract_text eng raw =
     Inr (case opt_member raw (str ''content'') of JArr content \<Rightarrow> spec_extract content | _ \<Rightarrow> [])"
  by (simp add: extract_text_def map_text_filter Array_join_def join_elements_strings
      join_with_Nil spec_extract_def split: jsval.splits)

lemma success_text:
  \<open>stringify_object (success_body region modelId prompt text) =
     str ''{"region":'' @ QuoteJSONString region @ str '',"modelId":'' @ QuoteJSONString modelId
     @ str '',"prompt":'' @ QuoteJSONString prompt @ str '',"text":'' @ QuoteJSONString text
     @ str ''}''\<close>
  by (simp add: stringify_object_def success_body_def)
     (simp add: str_def QuoteJSONString_def is_leading_def is_trailing_def escape_unit_def)


lemma invoke_and_extract_cases:
  "invoke_and_extract eng resp =
     (case resp of
        Rejected err \<Rightarrow> Inl err
      | Undecodable err \<Rightarrow> Inl err
      | Payload decoded \<Rightarrow>
          (case JSON_parse decoded of
             None \<Rightarrow> Inl (native_error (str ''SyntaxError'') (syntax_error_message eng decoded))
           | Some raw \<Rightarrow>
               Inr (case opt_member raw (str ''content'') of
                      JArr content \<Rightarrow> spec_extract content
                    | _ \<Rightarrow> [])))"
  by (simp add: invoke_and_extract_def extract_text_spec split: send_result.splits option.splits)

lemma handler_cases:
  "handler eng env sdk event =
     (case sdk (region_of env) of
        Inl thrown \<Rightarrow> Inl thrown
      | Inr client \<Rightarrow>
          (case invoke_and_extract eng (client (build_command env (normalize_prompt event))) of
             Inr text \<Rightarrow>
               Inr (json_response 200
                      (stringify_object
                         (success_body (region_of env) (modelId_of env) (normalize_prompt event) text)))
           | Inl err \<Rightarrow> catch_block eng err))"
  by (simp add: handler_def run_handler_def Let_def split: sum.splits)

text \<open>When both values are JSON data, the failure object is serialized as any object is.\<close>

lemma stringify_members_json:
  "stringify_members eng (failure_body (Json a) (Json b)) =
     Inr (stringify_object
            [(str ''message'', JStr (str ''Bedrock invoke failed'')),
             (str ''errorName'', a), (str ''errorMessage'', b)])"
  by (simp add: stringify_members_def failure_body_def serialize_value_def stringify_object_def
      split: option.splits)

lemma catch_block_data:
  "catch_block eng (data_value v) =
     Inr (json_response 500
            (stringify_object
               [(str ''message'', JStr (str ''Bedrock invoke failed'')),
                (str ''errorName'', opt_member v (str ''name'')),
                (str ''errorMessage'', opt_member v (str ''message''))]))"
  by (simp add: catch_block_def data_value_def plain_object_def stringify_members_json)

lemma native_error_data:
  "native_error n m = plain_object (Json (JStr n)) (Json (JStr m))"
  by (simp add: native_error_def data_value_def opt_member_def own_property_def str_def)

lemma failure_text_opt:
  \<open>stringify_object
     [(str ''message'', JStr (str ''Bedrock invoke failed'')),
      (str ''errorName'', (case n of None \<Rightarrow> JUndefined | Some s \<Rightarrow> JStr s)),
      (str ''errorMessage'', (case m of None \<Rightarrow> JUndefined | Some s \<Rightarrow> JStr s))] =
     str ''{"message":"Bedrock invoke failed"''
     @ (case n of None \<Rightarrow> [] | Some s \<Rightarrow> str '',"errorName":'' @ QuoteJSONString s)
     @ (case m of None \<Rightarrow> [] | Some s \<Rightarrow> str '',"errorMessage":'' @ QuoteJSONString s)
     @ str ''}''\<close>
  by (cases n; cases m; simp add: stringify_object_def)
     (simp_all add: str_def QuoteJSONString_def is_leading_def is_trailing_def escape_unit_def)





lemma catch_block_native:
  \<open>catch_block eng (native_error n m) =
     Inr (json_response 500
            (str ''{"message":"Bedrock invoke failed","errorName":'' @ QuoteJSONString n
             @ str '',"errorMessage":'' @ QuoteJSONString m @ str ''}''))\<close>
proof -
  have f: \<open>stringify_object
      [(str ''message'', JStr (str ''Bedrock invoke failed'')),
       (str ''errorName'', JStr n), (str ''errorMessage'', JStr m)] =
     str ''{"message":"Bedrock invoke failed","errorName":'' @ QuoteJSONString n
     @ str '',"errorMessage":'' @ QuoteJSONString m @ str ''}''\<close>
    using failure_text_opt [of "Some n" "Some m"] by (simp add: str_def)
  show ?thesis
    by (simp add: native_error_data catch_block_def plain_object_def stringify_members_json f)
qed

subsection \<open>The response\<close>

text \<open>
  C4. When the provider's payload parses and the \<^verbatim>\<open>content\<close> of the parsed value is
  an array, the extracted text is the concatenation, in the array's order and with no
  separator, of the \<^verbatim>\<open>text\<close> of exactly the blocks whose \<^verbatim>\<open>type\<close> is
  \<^verbatim>\<open>"text"\<close> and whose \<^verbatim>\<open>text\<close> is a string; every other block is dropped and
  nothing is thrown. The handler answers 200 with that text in the body.
\<close>

theorem text_blocks_concatenated:
  assumes "sdk (region_of env) = Inr client"
    and "client (build_command env (normalize_prompt event)) = Payload decoded"
    and "JSON_parse decoded = Some raw"
    and "opt_member raw (str ''content'') = JArr content"
  shows \<open>extract_text eng raw = Inr (spec_extract content)
    \<and> handler eng env sdk event =
        Inr \<lparr>statusCode = 200,
             headers = [(str ''content-type'', str ''application/json'')],
             response_body =
               str ''{"region":'' @ QuoteJSONString (region_of env)
               @ str '',"modelId":'' @ QuoteJSONString (modelId_of env)
               @ str '',"prompt":'' @ QuoteJSONString (normalize_prompt event)
               @ str '',"text":'' @ QuoteJSONString (spec_extract content) @ str ''}''\<rparr>\<close>
  using assms
  by (simp add: extract_text_spec handler_cases invoke_and_extract_cases json_response_def
      success_text)

text \<open>The theorem at the content
  \<^verbatim>\<open>[{type:"text",text:"A"},{type:"image",url:"x"},{type:"text",text:"B"}]\<close>:
  the text is \<^verbatim>\<open>AB\<close>.\<close>

theorem text_blocks_concatenated_witness:
  \<open>JSON_parse (str ''{"content":[{"type":"text","text":"A"},{"type":"image","url":"x"},{"type":"text","text":"B"}]}'') =
     Some (JObj [(str ''content'',
       JArr [JObj [(str ''type'', JStr (str ''text'')), (str ''text'', JStr (str ''A''))],
             JObj [(str ''type'', JStr (str ''image'')), (str ''url'', JStr (str ''x''))],
             JObj [(str ''type'', JStr (str ''text'')), (str ''text'', JStr (str ''B''))]])])
   \<and> spec_extract
        [JObj [(str ''type'', JStr (str ''text'')), (str ''text'', JStr (str ''A''))],
         JObj [(str ''type'', JStr (str ''image'')), (str ''url'', JStr (str ''x''))],
         JObj [(str ''type'', JStr (str ''text'')), (str ''text'', JStr (str ''B''))]] = str ''AB''
   \<and> extract_text sample_engine (JObj [(str ''content'',
       JArr [JObj [(str ''type'', JStr (str ''text'')), (str ''text'', JStr (str ''A''))],
             JObj [(str ''type'', JStr (str ''image'')), (str ''url'', JStr (str ''x''))],
             JObj [(str ''type'', JStr (str ''text'')), (str ''text'', JStr (str ''B''))]])]) =
       Inr (str ''AB'')
   \<and> handler sample_engine sample_env
        (answering (str ''{"content":[{"type":"text","text":"A"},{"type":"image","url":"x"},{"type":"text","text":"B"}]}''))
        \<lparr>body = BodyString (str ''{"prompt":"Say hi"}'')\<rparr> =
       Inr \<lparr>statusCode = 200,
            headers = [(str ''content-type'', str ''application/json'')],
            response_body =
              str ''{"region":"eu-west-1","modelId":"anthropic.claude-3-sonnet-20240229-v1:0","prompt":"Say hi","text":"AB"}''\<rparr>\<close>
proof -
  let ?decoded = \<open>str ''{"content":[{"type":"text","text":"A"},{"type":"image","url":"x"},{"type":"text","text":"B"}]}''\<close>
  let ?content = \<open>[JObj [(str ''type'', JStr (str ''text'')), (str ''text'', JStr (str ''A''))],
         JObj [(str ''type'', JStr (str ''image'')), (str ''url'', JStr (str ''x''))],
         JObj [(str ''type'', JStr (str ''text'')), (str ''text'', JStr (str ''B''))]]\<close>
  let ?ev = \<open>\<lparr>body = BodyString (str ''{"prompt":"Say hi"}'')\<rparr>\<close>
  have h0: "answering ?decoded (region_of sample_env) = Inr (\<lambda>command. Payload ?decoded)"
    by (rule answering_constructs)
  have h1: "(\<lambda>command. Payload ?decoded) (build_command sample_env (normalize_prompt ?ev)) =
      Payload ?decoded"
    by simp
  have h2: "JSON_parse ?decoded = Some (JObj [(str ''content'', JArr ?content)])"
    by (simp add: lex_eval)
  have h3: "opt_member (JObj [(str ''content'', JArr ?content)]) (str ''content'') = JArr ?content"
    by (simp add: opt_member_def own_property_def)
  have x: "spec_extract ?content = str ''AB''"
    by (simp add: spec_extract_def spec_block_text_def map_filter_simps own_property_def str_def)
  have v: "normalize_prompt ?ev = str ''Say hi''"
    by (simp add: normalize_cases lex_eval own_property_def)
  have q: \<open>QuoteJSONString (str ''eu-west-1'') = str ''"eu-west-1"''\<close>
    \<open>QuoteJSONString (str ''anthropic.claude-3-sonnet-20240229-v1:0'') =
       str ''"anthropic.claude-3-sonnet-20240229-v1:0"''\<close>
    \<open>QuoteJSONString (str ''Say hi'') = str ''"Say hi"''\<close>
    \<open>QuoteJSONString (str ''AB'') = str ''"AB"''\<close>
    by (simp_all add: str_def QuoteJSONString_def is_leading_def is_trailing_def escape_unit_def)
  have r: "region_of sample_env = str ''eu-west-1''"
    "modelId_of sample_env = str ''anthropic.claude-3-sonnet-20240229-v1:0''"
    by (simp_all add: region_of_def modelId_of_def sample_env_def or_default_def str_def)
  note t = text_blocks_concatenated [where sdk = "answering ?decoded" and env = sample_env
        and event = ?ev and eng = sample_engine, OF h0 h1 h2 h3]
  have e: "extract_text sample_engine (JObj [(str ''content'', JArr ?content)]) = Inr (str ''AB'')"
    using t [THEN conjunct1] by (simp only: x)
  have b: \<open>handler sample_engine sample_env (answering ?decoded) ?ev =
       Inr \<lparr>statusCode = 200,
            headers = [(str ''content-type'', str ''application/json'')],
            response_body =
              str ''{"region":"eu-west-1","modelId":"anthropic.claude-3-sonnet-20240229-v1:0","prompt":"Say hi","text":"AB"}''\<rparr>\<close>
    using t [THEN conjunct2] by (simp add: x v q r) (simp add: str_def)
  show ?thesis
    by (intro conjI h2 x e b)
qed

text \<open>
  C8. When the provider's payload parses and the \<^verbatim>\<open>content\<close> of the parsed value is
  absent or not an array, the extracted text is the empty string and the handler still
  answers 200, with \<^verbatim>\<open>"text":""\<close> in the body.
\<close>

theorem no_content_array_gives_empty_text:
  assumes "sdk (region_of env) = Inr client"
    and "client (build_command env (normalize_prompt event)) = Payload decoded"
    and "JSON_parse decoded = Some raw"
    and "\<forall>content. opt_member raw (str ''content'') \<noteq> JArr content"
  shows \<open>extract_text eng raw = Inr []
    \<and> handler eng env sdk event =
        Inr \<lparr>statusCode = 200,
             headers = [(str ''content-type'', str ''application/json'')],
             response_body =
               str ''{"region":'' @ QuoteJSONString (region_of env)
               @ str '',"modelId":'' @ QuoteJSONString (modelId_of env)
               @ str '',"prompt":'' @ QuoteJSONString (normalize_prompt event)
               @ str '',"text":""}''\<rparr>\<close>
proof -
  have e: "(case opt_member raw (str ''content'') of JArr content \<Rightarrow> spec_extract content | _ \<Rightarrow> []) = []"
    using assms(4) by (simp split: jsval.splits)
  have q: "QuoteJSONString [] = [0x22, 0x22]"
    by (simp add: QuoteJSONString_def)
  show ?thesis
    using assms(1,2,3)
    by (simp add: extract_text_spec handler_cases invoke_and_extract_cases json_response_def
        success_text e q) (simp add: str_def)
qed

text \<open>The theorem at a payload without \<^verbatim>\<open>content\<close> and at one whose
  \<^verbatim>\<open>content\<close> is a string.\<close>

theorem no_content_array_gives_empty_text_witness:
  \<open>JSON_parse (str ''{"id":"msg_1"}'') = Some (JObj [(str ''id'', JStr (str ''msg_1''))])
   \<and> (\<forall>content. opt_member (JObj [(str ''id'', JStr (str ''msg_1''))]) (str ''content'') \<noteq> JArr content)
   \<and> extract_text sample_engine (JObj [(str ''id'', JStr (str ''msg_1''))]) = Inr []
   \<and> handler sample_engine sample_env (answering (str ''{"id":"msg_1"}'')) \<lparr>body = BodyUndefined\<rparr> =
       Inr \<lparr>statusCode = 200,
            headers = [(str ''content-type'', str ''application/json'')],
            response_body =
              str ''{"region":"eu-west-1","modelId":"anthropic.claude-3-sonnet-20240229-v1:0","prompt":"Hello from Bedrock!","text":""}''\<rparr>
   \<and> JSON_parse (str ''{"content":"abc"}'') = Some (JObj [(str ''content'', JStr (str ''abc''))])
   \<and> handler sample_engine sample_env (answering (str ''{"content":"abc"}'')) \<lparr>body = BodyUndefined\<rparr> =
       Inr \<lparr>statusCode = 200,
            headers = [(str ''content-type'', str ''application/json'')],
            response_body =
              str ''{"region":"eu-west-1","modelId":"anthropic.claude-3-sonnet-20240229-v1:0","prompt":"Hello from Bedrock!","text":""}''\<rparr>\<close>
proof -
  let ?d1 = \<open>str ''{"id":"msg_1"}''\<close>
  let ?r1 = \<open>JObj [(str ''id'', JStr (str ''msg_1''))]\<close>
  let ?d2 = \<open>str ''{"content":"abc"}''\<close>
  let ?r2 = \<open>JObj [(str ''content'', JStr (str ''abc''))]\<close>
  let ?ev = \<open>\<lparr>body = BodyUndefined\<rparr>\<close>
  have k1: "answering ?d1 (region_of sample_env) = Inr (\<lambda>command. Payload ?d1)"
    and k2: "answering ?d2 (region_of sample_env) = Inr (\<lambda>command. Payload ?d2)"
    by (rule answering_constructs)+
  have a1: "(\<lambda>command. Payload ?d1) (build_command sample_env (normalize_prompt ?ev)) = Payload ?d1"
    and a2: "(\<lambda>command. Payload ?d2) (build_command sample_env (normalize_prompt ?ev)) = Payload ?d2"
    by simp_all
  have p1: "JSON_parse ?d1 = Some ?r1" and p2: "JSON_parse ?d2 = Some ?r2"
    by (simp_all add: lex_eval)
  have c1: "\<forall>content. opt_member ?r1 (str ''content'') \<noteq> JArr content"
    and c2: "\<forall>content. opt_member ?r2 (str ''content'') \<noteq> JArr content"
    by (simp_all add: opt_member_def own_property_def str_def)
  have v: "normalize_prompt ?ev = str ''Hello from Bedrock!''"
    by (simp add: normalize_cases default_prompt_def)
  have q: \<open>QuoteJSONString (str ''eu-west-1'') = str ''"eu-west-1"''\<close>
    \<open>QuoteJSONString (str ''anthropic.claude-3-sonnet-20240229-v1:0'') =
       str ''"anthropic.claude-3-sonnet-20240229-v1:0"''\<close>
    \<open>QuoteJSONString (str ''Hello from Bedrock!'') = str ''"Hello from Bedrock!"''\<close>
    by (simp_all add: str_def QuoteJSONString_def is_leading_def is_trailing_def escape_unit_def)
  have r: "region_of sample_env = str ''eu-west-1''"
    "modelId_of sample_env = str ''anthropic.claude-3-sonnet-20240229-v1:0''"
    by (simp_all add: region_of_def modelId_of_def sample_env_def or_default_def str_def)
  note t1 = no_content_array_gives_empty_text [where sdk = "answering ?d1" and env = sample_env
        and event = ?ev and eng = sample_engine, OF k1 a1 p1 c1]
  note t2 = no_content_array_gives_empty_text [where sdk = "answering ?d2" and env = sample_env
        and event = ?ev and eng = sample_engine, OF k2 a2 p2 c2]
  have b1: \<open>handler sample_engine sample_env (answering ?d1) ?ev =
       Inr \<lparr>statusCode = 200,
            headers = [(str ''content-type'', str ''application/json'')],
            response_body =
              str ''{"region":"eu-west-1","modelId":"anthropic.claude-3-sonnet-20240229-v1:0","prompt":"Hello from Bedrock!","text":""}''\<rparr>\<close>
    using t1 [THEN conjunct2] by (simp add: v q r) (simp add: str_def)
  have b2: \<open>handler sample_engine sample_env (answering ?d2) ?ev =
       Inr \<lparr>statusCode = 200,
            headers = [(str ''content-type'', str ''application/json'')],
            response_body =
              str ''{"region":"eu-west-1","modelId":"anthropic.claude-3-sonnet-20240229-v1:0","prompt":"Hello from Bedrock!","text":""}''\<rparr>\<close>
    using t2 [THEN conjunct2] by (simp add: v q r) (simp add: str_def)
  show ?thesis
    by (intro conjI p1 c1 t1 [THEN conjunct1] b1 p2 b2)
qed

text \<open>
  C9. When the provider call returns and reading or decoding its answer throws, or the
  decoded answer is not JSON, nothing in the extractor catches the failure: the body of
  the second \<^verbatim>\<open>try\<close> ends with the thrown value, and the handler does what it does
  when the provider call itself throws that value. For the \<^verbatim>\<open>SyntaxError\<close> of
  \<^verbatim>\<open>JSON.parse\<close>, for a \<^verbatim>\<open>TypeError\<close> of the decoding step, and for every thrown
  value that is JSON data, that is the response with status 500 and the body of
  \<^verbatim>\<open>message\<close>, \<^verbatim>\<open>errorName\<close> and \<^verbatim>\<open>errorMessage\<close>.
\<close>

theorem malformed_payload_is_invocation_failure:
  assumes "sdk (region_of env) = Inr client"
    and "client (build_command env (normalize_prompt event)) = r"
    and "r = Undecodable err
      \<or> (\<exists>decoded. r = Payload decoded \<and> JSON_parse decoded = None
            \<and> err = native_error (str ''SyntaxError'') (syntax_error_message eng decoded))"
  shows \<open>invoke_and_extract eng r = Inl err
    \<and> handler eng env sdk event = handler eng env (throwing err) event
    \<and> (\<forall>decoded. r = Payload decoded \<longrightarrow>
          handler eng env sdk event =
            Inr \<lparr>statusCode = 500,
                 headers = [(str ''content-type'', str ''application/json'')],
                 response_body =
                   str ''{"message":"Bedrock invoke failed","errorName":"SyntaxError","errorMessage":''
                   @ QuoteJSONString (syntax_error_message eng decoded) @ str ''}''\<rparr>)
    \<and> (\<forall>m. err = native_error (str ''TypeError'') m \<longrightarrow>
          handler eng env sdk event =
            Inr \<lparr>statusCode = 500,
                 headers = [(str ''content-type'', str ''application/json'')],
                 response_body =
                   str ''{"message":"Bedrock invoke failed","errorName":"TypeError","errorMessage":''
                   @ QuoteJSONString m @ str ''}''\<rparr>)
    \<and> (\<forall>v. err = data_value v \<longrightarrow>
          handler eng env sdk event =
            Inr \<lparr>statusCode = 500,
                 headers = [(str ''content-type'', str ''application/json'')],
                 response_body =
                   stringify_object
                     [(str ''message'', JStr (str ''Bedrock invoke failed'')),
                      (str ''errorName'', opt_member v (str ''name'')),
                      (str ''errorMessage'', opt_member v (str ''message''))]\<rparr>)\<close>
proof -
  have i: "invoke_and_extract eng r = Inl err"
    using assms(3) by (auto simp add: invoke_and_extract_cases)
  have h: "handler eng env sdk event = catch_block eng err"
    using assms(1,2) i by (simp add: handler_cases)
  have t: "handler eng env (throwing err) event = catch_block eng err"
    by (simp add: handler_cases invoke_and_extract_cases throwing_constructs)
  have q: \<open>QuoteJSONString (str ''SyntaxError'') = str ''"SyntaxError"''\<close>
    \<open>QuoteJSONString (str ''TypeError'') = str ''"TypeError"''\<close>
    by (simp_all add: str_def QuoteJSONString_def is_leading_def is_trailing_def escape_unit_def)
  have s: \<open>\<forall>decoded. r = Payload decoded \<longrightarrow>
      catch_block eng err =
        Inr \<lparr>statusCode = 500,
             headers = [(str ''content-type'', str ''application/json'')],
             response_body =
               str ''{"message":"Bedrock invoke failed","errorName":"SyntaxError","errorMessage":''
               @ QuoteJSONString (syntax_error_message eng decoded) @ str ''}''\<rparr>\<close>
  proof (intro allI impI)
    fix decoded
    assume "r = Payload decoded"
    with assms(3) have e: "err = native_error (str ''SyntaxError'') (syntax_error_message eng decoded)"
      by auto
    show \<open>catch_block eng err =
        Inr \<lparr>statusCode = 500,
             headers = [(str ''content-type'', str ''application/json'')],
             response_body =
               str ''{"message":"Bedrock invoke failed","errorName":"SyntaxError","errorMessage":''
               @ QuoteJSONString (syntax_error_message eng decoded) @ str ''}''\<rparr>\<close>
      by (simp add: e catch_block_native json_response_def q) (simp add: str_def)
  qed
  have y: \<open>\<forall>m. err = native_error (str ''TypeError'') m \<longrightarrow>
      catch_block eng err =
        Inr \<lparr>statusCode = 500,
             headers = [(str ''content-type'', str ''application/json'')],
             response_body =
               str ''{"message":"Bedrock invoke failed","errorName":"TypeError","errorMessage":''
               @ QuoteJSONString m @ str ''}''\<rparr>\<close>
    by (auto simp add: catch_block_native json_response_def q) (simp add: str_def)
  have d: \<open>\<forall>v. err = data_value v \<longrightarrow>
      catch_block eng err =
        Inr \<lparr>statusCode = 500,
             headers = [(str ''content-type'', str ''application/json'')],
             response_body =
               stringify_object
                 [(str ''message'', JStr (str ''Bedrock invoke failed'')),
                  (str ''errorName'', opt_member v (str ''name'')),
                  (str ''errorMessage'', opt_member v (str ''message''))]\<rparr>\<close>
    by (simp add: catch_block_data json_response_def)
  show ?thesis
    unfolding h t using i s y d by blast
qed

text \<open>The theorem at a payload that is an HTML page.\<close>

theorem malformed_payload_is_invocation_failure_witness:
  \<open>JSON_parse (str ''<html>Bad Gateway</html>'') = None
   \<and> handler sample_engine sample_env (answering (str ''<html>Bad Gateway</html>''))
        \<lparr>body = BodyUndefined\<rparr> =
      handler sample_engine sample_env
        (throwing (native_error (str ''SyntaxError'') (str ''Unexpected token in JSON'')))
        \<lparr>body = BodyUndefined\<rparr>
   \<and> handler sample_engine sample_env (answering (str ''<html>Bad Gateway</html>''))
        \<lparr>body = BodyUndefined\<rparr> =
      Inr \<lparr>statusCode = 500,
           headers = [(str ''content-type'', str ''application/json'')],
           response_body =
             str ''{"message":"Bedrock invoke failed","errorName":"SyntaxError","errorMessage":"Unexpected token in JSON"}''\<rparr>\<close>
proof -
  let ?d = "str ''<html>Bad Gateway</html>''"
  let ?err = "native_error (str ''SyntaxError'') (str ''Unexpected token in JSON'')"
  let ?ev = "\<lparr>body = BodyUndefined\<rparr>"
  have p: "JSON_parse ?d = None"
    by (simp add: lex_eval)
  have h0: "answering ?d (region_of sample_env) = Inr (\<lambda>command. Payload ?d)"
    by (rule answering_constructs)
  have h1: "(\<lambda>command. Payload ?d) (build_command sample_env (normalize_prompt ?ev)) = Payload ?d"
    by simp
  have h2: "Payload ?d = Undecodable ?err
      \<or> (\<exists>decoded. Payload ?d = Payload decoded \<and> JSON_parse decoded = None
            \<and> ?err = native_error (str ''SyntaxError'') (syntax_error_message sample_engine decoded))"
    using p by (simp add: sample_engine_def)
  note t = malformed_payload_is_invocation_failure [where sdk = "answering ?d"
      and env = sample_env and event = ?ev and eng = sample_engine and err = ?err, OF h0 h1 h2]
  note same = t [THEN conjunct2, THEN conjunct1]
  note b = t [THEN conjunct2, THEN conjunct2, THEN conjunct1, rule_format, OF refl]
  have q: \<open>QuoteJSONString (str ''Unexpected token in JSON'') = str ''"Unexpected token in JSON"''\<close>
    by (simp add: str_def QuoteJSONString_def is_leading_def is_trailing_def escape_unit_def)
  have c: \<open>handler sample_engine sample_env (answering ?d) ?ev =
      Inr \<lparr>statusCode = 500,
           headers = [(str ''content-type'', str ''application/json'')],
           response_body =
             str ''{"message":"Bedrock invoke failed","errorName":"SyntaxError","errorMessage":"Unexpected token in JSON"}''\<rparr>\<close>
    using b by (simp add: sample_engine_def q) (simp add: str_def)
  show ?thesis
    by (intro conjI p same c)
qed







end
